theory Spec2Isabelle
  imports Main
begin

section \<open>Python strings and lists, as far as the scanner uses them\<close>

text \<open>
  Source text, identifiers and messages are \<^typ>\<open>string\<close>s whose characters stand for the
  code points U+0000 to U+00FF, one \<^typ>\<open>char\<close> each; text with a code point beyond
  U+00FF is outside this model. The functions below are what the \<^verbatim>\<open>str\<close> methods
  called in \<^verbatim>\<open>scanner.py\<close> do on such text: \<^verbatim>\<open>lower\<close>, \<^verbatim>\<open>in\<close>,
  \<^verbatim>\<open>strip\<close> and \<^verbatim>\<open>splitlines\<close>.
\<close>

text \<open>
  \<^verbatim>\<open>str.lower()\<close>: the letters A to Z, and the upper-case letters U+00C0 to U+00DE
  (the multiplication sign U+00D7 is none), move up by 32.
\<close>

definition char_lower :: "char \<Rightarrow> char" where
  "char_lower c =
     (let n = (of_char c :: nat)
      in if (65 \<le> n \<and> n \<le> 90) \<or> (192 \<le> n \<and> n \<le> 222 \<and> n \<noteq> 215)
         then char_of (n + 32) else c)"

definition str_lower :: "string \<Rightarrow> string" where
  "str_lower s = map char_lower s"

text \<open>\<^verbatim>\<open>sub in s\<close>: \<open>sub\<close> occurs in \<open>s\<close> as a contiguous run.\<close>

fun str_in :: "string \<Rightarrow> string \<Rightarrow> bool" where
  "str_in sub [] = (sub = [])"
| "str_in sub (c # cs) = (take (length sub) (c # cs) = sub \<or> str_in sub cs)"

text \<open>
  \<^verbatim>\<open>str.strip()\<close> removes leading and trailing whitespace: tab, line feed, vertical
  tab, form feed, carriage return, the separators U+001C to U+001F, the space, the next
  line control U+0085 and the no-break space U+00A0.
\<close>

definition isspace :: "char \<Rightarrow> bool" where
  "isspace c =
     (let n = (of_char c :: nat)
      in (9 \<le> n \<and> n \<le> 13) \<or> (28 \<le> n \<and> n \<le> 32) \<or> n = 133 \<or> n = 160)"

definition str_strip :: "string \<Rightarrow> string" where
  "str_strip s = rev (dropWhile isspace (rev (dropWhile isspace s)))"

text \<open>
  \<^verbatim>\<open>str.splitlines()\<close>: a line ends at a line feed, a carriage return (with the line
  feed that follows it, if any), a vertical tab, a form feed, one of the separators
  U+001C to U+001E or the next line control U+0085. The terminators are dropped and a
  terminator at the very end opens no further line.
\<close>

definition line_boundary :: "char \<Rightarrow> bool" where
  "line_boundary c =
     (let n = (of_char c :: nat)
      in (10 \<le> n \<and> n \<le> 13) \<or> (28 \<le> n \<and> n \<le> 30) \<or> n = 133)"

fun splitlines_from :: "string \<Rightarrow> string \<Rightarrow> string list" where
  "splitlines_from cur [] = (if cur = [] then [] else [cur])"
| "splitlines_from cur (c # cs) =
     (if c = CHR 0x0D \<and> take 1 cs = [CHR 0x0A] then cur # splitlines_from [] (drop 1 cs)
      else if line_boundary c then cur # splitlines_from [] cs
      else splitlines_from (cur @ [c]) cs)"

definition str_splitlines :: "string \<Rightarrow> string list" where
  "str_splitlines s = splitlines_from [] s"

text \<open>
  The exceptions that can arise inside \<^verbatim>\<open>scan_code\<close> once the text has been
  parsed: the \<^verbatim>\<open>IndexError\<close> of a list subscript, and the interpreter's
  \<^verbatim>\<open>RecursionError\<close>.
\<close>

datatype exn = IndexError | RecursionError

text \<open>\<^verbatim>\<open>xs[i]\<close>: a negative index counts from the end; out of range raises.\<close>

definition getitem :: "'a list \<Rightarrow> int \<Rightarrow> exn + 'a" where
  "getitem xs i =
     (let n = int (length xs); j = (if i < 0 then i + n else i)
      in if 0 \<le> j \<and> j < n then Inr (xs ! nat j) else Inl IndexError)"

section \<open>The data model\<close>

text \<open>
  A Finding is the dictionary that \<^verbatim>\<open>add_issue\<close> and \<^verbatim>\<open>scan_code\<close> build,
  with its five keys. The severity is the string the code writes.
\<close>

record finding =
  filename :: string
  line :: int
  issue :: string
  severity :: string
  code :: string

text \<open>
  The syntax tree that \<^verbatim>\<open>ast.parse\<close> returns. The node classes that the visitor
  inspects have a constructor each, with the fields of the class in the order of its
  \<^verbatim>\<open>_fields\<close>; \<^verbatim>\<open>Assign\<close>, \<^verbatim>\<open>Call\<close> and \<^verbatim>\<open>ExceptHandler\<close>,
  the classes whose nodes are passed to \<^verbatim>\<open>add_issue\<close>, carry their
  \<^verbatim>\<open>lineno\<close> first. A node of any other class is \<open>Other cls children\<close>: its class
  name and its child nodes in field order, which is all that
  \<^verbatim>\<open>NodeVisitor.generic_visit\<close> reads of it.
\<close>

datatype const_value =
    StrValue string
  | BytesValue string
  | IntValue int
  | BoolValue bool
  | NoneValue
  | EllipsisValue
  | FloatValue

datatype node =
    Assign int "node list" node
  | Call int node "node list" "node list"
  | ExceptHandler int "node option" "string option" "node list"
  | Name string node
  | Attribute node string node
  | Constant const_value
  | Pass
  | Expr node
  | Other string "node list"

abbreviation Load :: node where "Load \<equiv> Other ''Load'' []"
abbreviation Store :: node where "Store \<equiv> Other ''Store'' []"
abbreviation Module :: "node list \<Rightarrow> node" where "Module body \<equiv> Other ''Module'' body"
abbreviation AnnAssign :: "node \<Rightarrow> node \<Rightarrow> node \<Rightarrow> node" where
  "AnnAssign target annotation v \<equiv> Other ''AnnAssign'' [target, annotation, v]"
abbreviation Try :: "node list \<Rightarrow> node list \<Rightarrow> node list \<Rightarrow> node list \<Rightarrow> node" where
  "Try body handlers orelse finalbody \<equiv> Other ''Try'' (body @ handlers @ orelse @ finalbody)"
abbreviation BinOp :: "node \<Rightarrow> node \<Rightarrow> node \<Rightarrow> node" where
  "BinOp left op right \<equiv> Other ''BinOp'' [left, op, right]"

fun lineno :: "node \<Rightarrow> int" where
  "lineno (Assign ln targets v) = ln"
| "lineno (Call ln func args keywords) = ln"
| "lineno (ExceptHandler ln ty nm body) = ln"

text \<open>The child nodes of a node, in the order of \<^verbatim>\<open>ast.iter_fields\<close>.\<close>

fun iter_child_nodes :: "node \<Rightarrow> node list" where
  "iter_child_nodes (Assign ln targets v) = targets @ [v]"
| "iter_child_nodes (Call ln func args keywords) = func # args @ keywords"
| "iter_child_nodes (ExceptHandler ln ty nm body) =
     (case ty of None \<Rightarrow> [] | Some t \<Rightarrow> [t]) @ body"
| "iter_child_nodes (Name i ctx) = [ctx]"
| "iter_child_nodes (Attribute v attr ctx) = [v, ctx]"
| "iter_child_nodes (Constant c) = []"
| "iter_child_nodes Pass = []"
| "iter_child_nodes (Expr v) = [v]"
| "iter_child_nodes (Other cls children) = children"

section \<open>The visitor\<close>

record SecurityVisitor =
  self_issues :: "finding list"
  self_filename :: string
  self_code_lines :: "string list"

text \<open>
  \<^verbatim>\<open>__init__\<close>: a new visitor has no issues.
\<close>

definition SecurityVisitor_init :: "string \<Rightarrow> string list \<Rightarrow> SecurityVisitor" where
  "SecurityVisitor_init file_name lines =
     \<lparr>self_issues = [], self_filename = file_name, self_code_lines = lines\<rparr>"

text \<open>
  Lines 15 to 18 of \<^verbatim>\<open>add_issue\<close>: the source line of a line number, trimmed; the
  placeholder when the subscript raises \<^verbatim>\<open>IndexError\<close>.
\<close>

definition code_snippet :: "string list \<Rightarrow> int \<Rightarrow> string" where
  "code_snippet lines line_num =
     (case getitem lines (line_num - 1) of
        Inr l \<Rightarrow> str_strip l
      | Inl e \<Rightarrow> ''(Code not available)'')"

definition add_issue :: "SecurityVisitor \<Rightarrow> node \<Rightarrow> string \<Rightarrow> string \<Rightarrow> SecurityVisitor" where
  "add_issue self node issue_text sev =
     (let line_num = lineno node
      in self\<lparr>self_issues := self_issues self @
           [\<lparr>filename = self_filename self, line = line_num, issue = issue_text,
             severity = sev, code = code_snippet (self_code_lines self) line_num\<rparr>]\<rparr>)"

text \<open>
  The three detectors: what \<^verbatim>\<open>visit_Assign\<close> (lines 33 to 40),
  \<^verbatim>\<open>visit_Call\<close> (lines 46 to 64) and \<^verbatim>\<open>visit_ExceptHandler\<close> (lines 73
  to 77) do before they hand the node to \<^verbatim>\<open>generic_visit\<close>.
\<close>

text \<open>Line 37: the lowered name contains one of the four words.\<close>

definition looks_suspicious :: "string \<Rightarrow> bool" where
  "looks_suspicious var_name =
     list_ex (\<lambda>secret. str_in secret var_name) [''key'', ''password'', ''secret'', ''token'']"

definition check_target :: "node \<Rightarrow> node \<Rightarrow> SecurityVisitor \<Rightarrow> SecurityVisitor" where
  "check_target node target self =
     (case target of
        Name target_id ctx \<Rightarrow>
          (let var_name = str_lower target_id in
           if looks_suspicious var_name
           then (case node of
                   Assign ln targets (Constant (StrValue s)) \<Rightarrow>
                     add_issue self node
                       (''Possible Hardcoded Secret: '' @ [CHR 0x27] @ target_id @ [CHR 0x27])
                       ''High''
                 | _ \<Rightarrow> self)
           else self)
      | _ \<Rightarrow> self)"

fun check_Assign :: "SecurityVisitor \<Rightarrow> node \<Rightarrow> SecurityVisitor" where
  "check_Assign self (Assign ln targets v) =
     fold (check_target (Assign ln targets v)) targets self"

fun check_Call :: "SecurityVisitor \<Rightarrow> node \<Rightarrow> SecurityVisitor" where
  "check_Call self (Call ln func args keywords) =
     (case func of
        Name func_name ctx \<Rightarrow>
          (if func_name \<in> set [''eval'', ''exec'']
           then add_issue self (Call ln func args keywords)
                  (''Use of Dangerous Function ('' @ func_name @ '')'') ''High''
           else if func_name = ''input''
           then add_issue self (Call ln func args keywords)
                  ''Use of input() (Validate this data!)'' ''Medium''
           else self)
      | Attribute (Name module mctx) method ctx \<Rightarrow>
          (if module = ''os'' \<and> method \<in> set [''system'', ''popen'']
           then add_issue self (Call ln func args keywords)
                  (''Potential OS Command Injection: '' @ module @ ''.'' @ method) ''High''
           else if module = ''subprocess'' \<and> method \<in> set [''run'', ''call'', ''Popen'']
           then add_issue self (Call ln func args keywords)
                  (''Potential Subprocess Injection: '' @ module @ ''.'' @ method) ''High''
           else self)
      | _ \<Rightarrow> self)"

fun check_ExceptHandler :: "SecurityVisitor \<Rightarrow> node \<Rightarrow> SecurityVisitor" where
  "check_ExceptHandler self (ExceptHandler ln ty nm body) =
     (if length body = 1
      then (case body ! 0 of
              Pass \<Rightarrow>
                add_issue self (ExceptHandler ln ty nm body)
                  ''Broad Exception Handler (empty except)'' ''Low''
            | Expr (Constant EllipsisValue) \<Rightarrow>
                add_issue self (ExceptHandler ln ty nm body)
                  ''Broad Exception Handler (empty except)'' ''Low''
            | _ \<Rightarrow> self)
      else self)"

lemma size_member: "c \<in> set xs \<Longrightarrow> size (c::node) \<le> size_list size xs"
  by (induction xs) auto

lemma size_child: "c \<in> set (iter_child_nodes n) \<Longrightarrow> size c < size n"
  by (cases n) (auto simp: less_Suc_eq_le split: option.splits dest!: size_member)

text \<open>
  \<^verbatim>\<open>NodeVisitor.visit\<close> calls the method named after the node's class, and
  \<^verbatim>\<open>generic_visit\<close> when the visitor has none; \<^verbatim>\<open>generic_visit\<close> visits
  the child nodes in field order. The visitor is passed along: each call returns it
  with the issues appended so far.
\<close>

function visit :: "SecurityVisitor \<Rightarrow> node \<Rightarrow> SecurityVisitor"
  and visit_Assign :: "SecurityVisitor \<Rightarrow> node \<Rightarrow> SecurityVisitor"
  and visit_Call :: "SecurityVisitor \<Rightarrow> node \<Rightarrow> SecurityVisitor"
  and visit_ExceptHandler :: "SecurityVisitor \<Rightarrow> node \<Rightarrow> SecurityVisitor"
  and generic_visit :: "SecurityVisitor \<Rightarrow> node \<Rightarrow> SecurityVisitor"
where
  "visit self node =
     (case node of
        Assign ln targets v \<Rightarrow> visit_Assign self node
      | Call ln func args keywords \<Rightarrow> visit_Call self node
      | ExceptHandler ln ty nm body \<Rightarrow> visit_ExceptHandler self node
      | _ \<Rightarrow> generic_visit self node)"
| "visit_Assign self node = generic_visit (check_Assign self node) node"
| "visit_Call self node = generic_visit (check_Call self node) node"
| "visit_ExceptHandler self node = generic_visit (check_ExceptHandler self node) node"
| "generic_visit self node = fold (\<lambda>child s. visit s child) (iter_child_nodes node) self"
  by pat_completeness auto
termination
proof (relation "measure (\<lambda>x. case x of
          Inl (Inl (self, n)) \<Rightarrow> 3 * size n + 2
        | Inl (Inr (self, n)) \<Rightarrow> 3 * size n + 1
        | Inr (Inl (self, n)) \<Rightarrow> 3 * size n + 1
        | Inr (Inr (Inl (self, n))) \<Rightarrow> 3 * size n + 1
        | Inr (Inr (Inr (self, n))) \<Rightarrow> 3 * size n)")
qed (auto dest: size_child)

section \<open>The entry point\<close>

text \<open>
  \<^verbatim>\<open>ast.parse\<close> is Python's own parser, not code of this repository: the scanner
  takes it as a parameter. On a text it returns a tree, raises
  \<^verbatim>\<open>SyntaxError\<close> (with \<^verbatim>\<open>lineno\<close>, which may be \<^verbatim>\<open>None\<close>, and
  \<^verbatim>\<open>msg\<close>), or raises another \<^verbatim>\<open>Exception\<close> \<open>e\<close> (with \<^verbatim>\<open>str(e)\<close>).
\<close>

datatype parse_outcome =
    Parsed node
  | Raise_SyntaxError "int option" string
  | Raise_Exception string

definition scan_code :: "(string \<Rightarrow> parse_outcome) \<Rightarrow> string \<Rightarrow> string \<Rightarrow> finding list" where
  "scan_code ast_parse code_text file_name =
     (case ast_parse code_text of
        Raise_SyntaxError e_lineno e_msg \<Rightarrow>
          [\<lparr>filename = file_name,
            line = (case e_lineno of None \<Rightarrow> 0 | Some l \<Rightarrow> l),
            issue = ''Syntax Error: '' @ e_msg,
            severity = ''Error'',
            code = ''N/A''\<rparr>]
      | Raise_Exception e_str \<Rightarrow>
          [\<lparr>filename = file_name,
            line = 0,
            issue = ''Failed to parse: '' @ e_str,
            severity = ''Error'',
            code = ''N/A''\<rparr>]
      | Parsed tree \<Rightarrow>
          (let code_lines = str_splitlines code_text;
               visitor = SecurityVisitor_init file_name code_lines
           in self_issues (visit visitor tree)))"

section \<open>The interpreter's recursion limit\<close>

text \<open>
  \<^const>\<open>visit\<close> is the traversal on an interpreter whose stack never runs out. CPython
  bounds the nesting of calls (\<^verbatim>\<open>sys.getrecursionlimit()\<close>, 1000 unless changed)
  and raises \<^verbatim>\<open>RecursionError\<close> at the call that would exceed it. In the functions
  below the first argument is the number of frames the interpreter can still push:
  every call of \<^verbatim>\<open>visit\<close>, of a \<^verbatim>\<open>visit_\<close> method and of
  \<^verbatim>\<open>generic_visit\<close> needs one. (\<^verbatim>\<open>add_issue\<close> and the generator in
  \<^verbatim>\<open>visit_Assign\<close> need one while they run; \<^verbatim>\<open>generic_visit\<close>, called next
  from the same depth, needs one too, so they change no outcome.) The count covers the
  methods of the visitor only; at a leaf CPython pushes up to two frames more, for the
  generator of \<^verbatim>\<open>ast.iter_fields\<close> and, in some versions, for its own
  \<^verbatim>\<open>visit_Constant\<close>, so the interpreter raises whenever the functions below do. No
  method of the visitor catches the exception: the loop over the children stops at the
  first child that raises.
\<close>

fun for_each :: "('s \<Rightarrow> 'a \<Rightarrow> exn + 's) \<Rightarrow> 'a list \<Rightarrow> 's \<Rightarrow> exn + 's" where
  "for_each f [] s = Inr s"
| "for_each f (x # xs) s = (case f s x of Inl e \<Rightarrow> Inl e | Inr s' \<Rightarrow> for_each f xs s')"

fun visit_lim :: "nat \<Rightarrow> SecurityVisitor \<Rightarrow> node \<Rightarrow> exn + SecurityVisitor"
  and visit_Assign_lim :: "nat \<Rightarrow> SecurityVisitor \<Rightarrow> node \<Rightarrow> exn + SecurityVisitor"
  and visit_Call_lim :: "nat \<Rightarrow> SecurityVisitor \<Rightarrow> node \<Rightarrow> exn + SecurityVisitor"
  and visit_ExceptHandler_lim :: "nat \<Rightarrow> SecurityVisitor \<Rightarrow> node \<Rightarrow> exn + SecurityVisitor"
  and generic_visit_lim :: "nat \<Rightarrow> SecurityVisitor \<Rightarrow> node \<Rightarrow> exn + SecurityVisitor"
where
  "visit_lim 0 self node = Inl RecursionError"
| "visit_lim (Suc d) self node =
     (case node of
        Assign ln targets v \<Rightarrow> visit_Assign_lim d self node
      | Call ln func args keywords \<Rightarrow> visit_Call_lim d self node
      | ExceptHandler ln ty nm body \<Rightarrow> visit_ExceptHandler_lim d self node
      | _ \<Rightarrow> generic_visit_lim d self node)"
| "visit_Assign_lim 0 self node = Inl RecursionError"
| "visit_Assign_lim (Suc d) self node = generic_visit_lim d (check_Assign self node) node"
| "visit_Call_lim 0 self node = Inl RecursionError"
| "visit_Call_lim (Suc d) self node = generic_visit_lim d (check_Call self node) node"
| "visit_ExceptHandler_lim 0 self node = Inl RecursionError"
| "visit_ExceptHandler_lim (Suc d) self node =
     generic_visit_lim d (check_ExceptHandler self node) node"
| "generic_visit_lim 0 self node = Inl RecursionError"
| "generic_visit_lim (Suc d) self node =
     for_each (\<lambda>s child. visit_lim d s child) (iter_child_nodes node) self"

text \<open>
  \<^verbatim>\<open>scan_code\<close> with the limit: \<open>d\<close> frames are left when line 107 calls
  \<^verbatim>\<open>visitor.visit(tree)\<close>. That call stands after the \<^verbatim>\<open>try\<close> statement of
  lines 83 to 100, so an exception of the traversal leaves \<^verbatim>\<open>scan_code\<close>.
\<close>

definition scan_code_lim ::
  "nat \<Rightarrow> (string \<Rightarrow> parse_outcome) \<Rightarrow> string \<Rightarrow> string \<Rightarrow> exn + finding list" where
  "scan_code_lim d ast_parse code_text file_name =
     (case ast_parse code_text of
        Raise_SyntaxError e_lineno e_msg \<Rightarrow>
          Inr [\<lparr>filename = file_name,
                line = (case e_lineno of None \<Rightarrow> 0 | Some l \<Rightarrow> l),
                issue = ''Syntax Error: '' @ e_msg,
                severity = ''Error'',
                code = ''N/A''\<rparr>]
      | Raise_Exception e_str \<Rightarrow>
          Inr [\<lparr>filename = file_name,
                line = 0,
                issue = ''Failed to parse: '' @ e_str,
                severity = ''Error'',
                code = ''N/A''\<rparr>]
      | Parsed tree \<Rightarrow>
          (let code_lines = str_splitlines code_text;
               visitor = SecurityVisitor_init file_name code_lines
           in case visit_lim d visitor tree of
                Inl e \<Rightarrow> Inl e
              | Inr visitor' \<Rightarrow> Inr (self_issues visitor')))"

text \<open>
  The frames that the methods of the visitor need for the traversal of a node: three
  for a node with a \<^verbatim>\<open>visit_\<close> method (\<^verbatim>\<open>visit\<close>, the method,
  \<^verbatim>\<open>generic_visit\<close>), two for any other, on top of what its deepest child needs.
\<close>

function frames :: "node \<Rightarrow> nat" where
  "frames n =
     (case n of
        Assign ln targets v \<Rightarrow> 3
      | Call ln func args keywords \<Rightarrow> 3
      | ExceptHandler ln ty nm body \<Rightarrow> 3
      | _ \<Rightarrow> 2) + fold max (map frames (iter_child_nodes n)) 0"
  by pat_completeness auto
termination
  by (relation "measure size") (auto dest: size_child)

text \<open>
  The text \<^verbatim>\<open>x = 1+1+...+1\<close> with \<open>k\<close> additions, and the expression tree that
  \<^verbatim>\<open>ast.parse\<close> returns for its right-hand side: additions associate to the left, so
  the tree is \<open>k\<close> binary operations deep.
\<close>

fun sum_chain :: "nat \<Rightarrow> node" where
  "sum_chain 0 = Constant (IntValue 1)"
| "sum_chain (Suc k) = BinOp (sum_chain k) (Other ''Add'' []) (Constant (IntValue 1))"

definition sum_text :: "nat \<Rightarrow> string" where
  "sum_text k = ''x = 1'' @ concat (replicate k ''+1'')"

section \<open>Document order\<close>

text \<open>
  The nodes of a tree in document order: a node, then the nodes below each of its
  children, child after child.
\<close>

function preorder :: "node \<Rightarrow> node list" where
  "preorder n = n # concat (map preorder (iter_child_nodes n))"
  by pat_completeness auto
termination
  by (relation "measure size") (auto dest: size_child)

text \<open>
  What a node triggers by itself, on a visitor for the file \<open>file_name\<close> with the
  lines \<open>lines\<close>: the issues of the detector of its class; none for a class without
  detector.
\<close>

definition node_findings :: "string \<Rightarrow> string list \<Rightarrow> node \<Rightarrow> finding list" where
  "node_findings file_name lines node =
     (case node of
        Assign ln targets v \<Rightarrow> self_issues (check_Assign (SecurityVisitor_init file_name lines) node)
      | Call ln func args keywords \<Rightarrow>
          self_issues (check_Call (SecurityVisitor_init file_name lines) node)
      | ExceptHandler ln ty nm body \<Rightarrow>
          self_issues (check_ExceptHandler (SecurityVisitor_init file_name lines) node)
      | _ \<Rightarrow> [])"

text \<open>What the traversal of the children of a node adds, the node itself left out.\<close>

definition children_findings :: "SecurityVisitor \<Rightarrow> node \<Rightarrow> finding list" where
  "children_findings self node = self_issues (generic_visit (self\<lparr>self_issues := []\<rparr>) node)"

text \<open>All that a tree triggers: what its nodes trigger, in document order.\<close>

definition tree_findings :: "string \<Rightarrow> string list \<Rightarrow> node \<Rightarrow> finding list" where
  "tree_findings f l n = concat (map (node_findings f l) (preorder n))"

text \<open>A visitor with further issues appended, and what one target of an assignment adds.\<close>

definition with_issues :: "SecurityVisitor \<Rightarrow> finding list \<Rightarrow> SecurityVisitor" where
  "with_issues self fs = self\<lparr>self_issues := self_issues self @ fs\<rparr>"

definition target_findings :: "string \<Rightarrow> string list \<Rightarrow> node \<Rightarrow> node \<Rightarrow> finding list" where
  "target_findings f l node target = self_issues (check_target node target (SecurityVisitor_init f l))"

text \<open>The names of the targets of an assignment that are simple identifiers, in their order.\<close>

fun target_ids :: "node list \<Rightarrow> string list" where
  "target_ids [] = []"
| "target_ids (Name target_id ctx # targets) = target_id # target_ids targets"
| "target_ids (target # targets) = target_ids targets"

text \<open>The Finding of the secret detector for the target \<open>target_id\<close> of an assignment on line \<open>ln\<close>.\<close>

definition secret_finding :: "string \<Rightarrow> string list \<Rightarrow> int \<Rightarrow> string \<Rightarrow> finding" where
  "secret_finding file_name lines ln target_id =
     \<lparr>filename = file_name, line = ln,
       issue = ''Possible Hardcoded Secret: '' @ [CHR 0x27] @ target_id @ [CHR 0x27],
       severity = ''High'', code = code_snippet lines ln\<rparr>"

section \<open>The traversal appends the findings of the nodes in document order\<close>

declare visit.simps [simp del] generic_visit.simps [simp del] preorder.simps [simp del]
  frames.simps [simp del]

lemma with_issues_simps [simp]:
  "self_issues (with_issues self fs) = self_issues self @ fs"
  "self_filename (with_issues self fs) = self_filename self"
  "self_code_lines (with_issues self fs) = self_code_lines self"
  "with_issues (with_issues self fs) gs = with_issues self (fs @ gs)"
  "with_issues self [] = self"
  by (simp_all add: with_issues_def)

lemma init_simps [simp]:
  "self_issues (SecurityVisitor_init f l) = []"
  "self_filename (SecurityVisitor_init f l) = f"
  "self_code_lines (SecurityVisitor_init f l) = l"
  by (simp_all add: SecurityVisitor_init_def)

lemma add_issue_with:
  "add_issue self node t s =
     with_issues self [\<lparr>filename = self_filename self, line = lineno node, issue = t,
       severity = s, code = code_snippet (self_code_lines self) (lineno node)\<rparr>]"
  by (simp add: add_issue_def with_issues_def Let_def)

lemma check_target_with:
  "check_target node target self =
     with_issues self (target_findings (self_filename self) (self_code_lines self) node target)"
  by (simp add: check_target_def target_findings_def add_issue_with Let_def
      split: node.splits const_value.splits)

lemma fold_check_target_with:
  "fold (check_target node) targets self =
     with_issues self (concat (map (target_findings (self_filename self) (self_code_lines self) node) targets))"
proof (induction targets arbitrary: self)
  case Nil
  show ?case by simp
next
  case (Cons t ts)
  show ?case
    by (simp add: Cons.IH) (simp add: check_target_with)
qed

lemma check_Assign_with:
  "check_Assign self (Assign ln targets v) =
     with_issues self (node_findings (self_filename self) (self_code_lines self) (Assign ln targets v))"
  by (simp add: node_findings_def fold_check_target_with)

lemma check_Call_with:
  "check_Call self (Call ln func args kws) =
     with_issues self (node_findings (self_filename self) (self_code_lines self) (Call ln func args kws))"
  by (simp add: node_findings_def add_issue_with split: node.splits)

lemma check_ExceptHandler_with:
  "check_ExceptHandler self (ExceptHandler ln ty nm body) =
     with_issues self (node_findings (self_filename self) (self_code_lines self) (ExceptHandler ln ty nm body))"
  by (simp add: node_findings_def add_issue_with split: node.splits const_value.splits)

lemma visit_unfold:
  "visit self n =
     fold (\<lambda>child s. visit s child) (iter_child_nodes n)
       (with_issues self (node_findings (self_filename self) (self_code_lines self) n))"
  by (cases n; subst visit.simps;
      simp add: generic_visit.simps check_Assign_with check_Call_with check_ExceptHandler_with
        del: check_Assign.simps check_Call.simps check_ExceptHandler.simps;
      simp add: node_findings_def)

lemma fold_visit_with:
  assumes "\<And>c self. c \<in> set cs \<Longrightarrow>
     visit self c = with_issues self (tree_findings (self_filename self) (self_code_lines self) c)"
  shows "fold (\<lambda>child s. visit s child) cs self =
     with_issues self (concat (map (tree_findings (self_filename self) (self_code_lines self)) cs))"
  using assms
proof (induction cs arbitrary: self)
  case Nil
  show ?case by simp
next
  case (Cons c cs)
  have "visit self c = with_issues self (tree_findings (self_filename self) (self_code_lines self) c)"
    using Cons.prems by simp
  moreover have "fold (\<lambda>child s. visit s child) cs (visit self c) =
     with_issues (visit self c)
       (concat (map (tree_findings (self_filename (visit self c)) (self_code_lines (visit self c))) cs))"
    using Cons.prems by (intro Cons.IH) simp
  ultimately show ?case by simp
qed

lemma concat_map_concat:
  "concat (map g (concat xss)) = concat (map (\<lambda>xs. concat (map g xs)) xss)"
  by (induction xss) auto

lemma tree_findings_unfold:
  "tree_findings f l n = node_findings f l n @ concat (map (tree_findings f l) (iter_child_nodes n))"
proof -
  have "preorder n = n # concat (map preorder (iter_child_nodes n))"
    by (simp add: preorder.simps)
  then show ?thesis
    by (simp add: tree_findings_def [abs_def] concat_map_concat comp_def)
qed

lemma visit_tree_findings:
  "visit self n = with_issues self (tree_findings (self_filename self) (self_code_lines self) n)"
proof (induction n arbitrary: self rule: measure_induct_rule [of size])
  case (less n)
  have kids: "\<And>c s. c \<in> set (iter_child_nodes n) \<Longrightarrow>
     visit s c = with_issues s (tree_findings (self_filename s) (self_code_lines s) c)"
    by (rule less.IH) (rule size_child)
  show ?case
    by (subst visit_unfold, subst fold_visit_with [OF kids], assumption)
       (simp add: tree_findings_unfold [of _ _ n])
qed


lemma generic_visit_tree:
  "generic_visit self n =
     with_issues self
       (concat (map (tree_findings (self_filename self) (self_code_lines self)) (iter_child_nodes n)))"
  unfolding generic_visit.simps by (rule fold_visit_with) (rule visit_tree_findings)

lemma children_findings_eq:
  "children_findings self n =
     concat (map (tree_findings (self_filename self) (self_code_lines self)) (iter_child_nodes n))"
  by (simp add: children_findings_def generic_visit_tree)

lemma visit_issues:
  "self_issues (visit self n) =
     self_issues self @ node_findings (self_filename self) (self_code_lines self) n @
       children_findings self n"
  by (simp add: visit_tree_findings children_findings_eq tree_findings_unfold [of _ _ n])

lemma targets_findings:
  "concat (map (target_findings f l (Assign ln ts (Constant (StrValue s)))) targets) =
   map (secret_finding f l ln) (filter (\<lambda>i. looks_suspicious (str_lower i)) (target_ids targets))"
  by (induction targets rule: target_ids.induct)
     (simp_all add: target_findings_def check_target_def add_issue_def Let_def secret_finding_def)

lemma targets_findings_other:
  "\<forall>s. v \<noteq> Constant (StrValue s) \<Longrightarrow>
   concat (map (target_findings f l (Assign ln ts v)) targets) = []"
  by (induction targets)
     (auto simp add: target_findings_def check_target_def Let_def
        split: node.splits const_value.splits)

lemma tree_findings_leaves [simp]:
  "tree_findings f l (Other cls []) = []"
  "tree_findings f l (Name i (Other cls [])) = []"
  "tree_findings f l (Constant c) = []"
  "tree_findings f l Pass = []"
  by (simp_all add: tree_findings_def preorder.simps node_findings_def)

lemma scan_code_parsed:
  "ast_parse code_text = Parsed tree \<Longrightarrow>
   scan_code ast_parse code_text file_name =
     concat (map (node_findings file_name (str_splitlines code_text)) (preorder tree))"
  by (simp add: scan_code_def visit_tree_findings tree_findings_def)





section \<open>The recursion limit decides between the result and the exception\<close>

lemma fold_max_le: "fold max xs (a::nat) \<le> d \<longleftrightarrow> a \<le> d \<and> (\<forall>x\<in>set xs. x \<le> d)"
  by (induction xs arbitrary: a) auto

lemma for_each_visit_lim:
  assumes "\<And>c s. c \<in> set cs \<Longrightarrow>
     visit_lim d s c = (if frames c \<le> d then Inr (visit s c) else Inl RecursionError)"
  shows "for_each (\<lambda>s child. visit_lim d s child) cs self =
     (if \<forall>c\<in>set cs. frames c \<le> d then Inr (fold (\<lambda>child s. visit s child) cs self)
      else Inl RecursionError)"
  using assms by (induction cs arbitrary: self) auto

lemma generic_visit_lim_frames:
  assumes "\<And>c s e. c \<in> set (iter_child_nodes n) \<Longrightarrow>
     visit_lim e s c = (if frames c \<le> e then Inr (visit s c) else Inl RecursionError)"
  shows "generic_visit_lim d self n =
     (if 1 + fold max (map frames (iter_child_nodes n)) 0 \<le> d then Inr (generic_visit self n)
      else Inl RecursionError)"
proof (cases d)
  case 0
  then show ?thesis by simp
next
  case (Suc e)
  show ?thesis
    unfolding Suc generic_visit_lim.simps generic_visit.simps
    by (subst for_each_visit_lim [OF assms]) (auto simp add: fold_max_le)
qed

lemma frames_node_simps:
  "frames (Assign ln ts v) = 3 + fold max (map frames (ts @ [v])) 0"
  "frames (Call ln func args kws) = 3 + fold max (map frames (func # args @ kws)) 0"
  "frames (ExceptHandler ln ty nm body) =
     3 + fold max (map frames ((case ty of None \<Rightarrow> [] | Some t \<Rightarrow> [t]) @ body)) 0"
  "frames (Name i ctx) = 2 + fold max (map frames [ctx]) 0"
  "frames (Attribute v attr ctx) = 2 + fold max (map frames [v, ctx]) 0"
  "frames (Constant c) = 2"
  "frames Pass = 2"
  "frames (Expr v) = 2 + fold max (map frames [v]) 0"
  "frames (Other cls ks) = 2 + fold max (map frames ks) 0"
  by (subst frames.simps, simp)+

lemma visit_lim_frames:
  "visit_lim d self n = (if frames n \<le> d then Inr (visit self n) else Inl RecursionError)"
proof (induction n arbitrary: d self rule: measure_induct_rule [of size])
  case (less n)
  have kids: "\<And>c s e. c \<in> set (iter_child_nodes n) \<Longrightarrow>
     visit_lim e s c = (if frames c \<le> e then Inr (visit s c) else Inl RecursionError)"
    by (rule less.IH) (rule size_child)
  have gv: "\<forall>d self. generic_visit_lim d self n =
     (if 1 + fold max (map frames (iter_child_nodes n)) 0 \<le> d then Inr (generic_visit self n)
      else Inl RecursionError)"
    using generic_visit_lim_frames [OF kids] by blast
  consider "d = 0" | "d = Suc 0" | e where "d = Suc (Suc e)"
    by (cases d, simp, rename_tac m, case_tac m, auto)
  then show ?case
  proof cases
    case 1
    then show ?thesis by (cases n) (simp_all add: frames_node_simps)
  next
    case 2
    with gv show ?thesis
      by (cases n)
         (simp_all add: frames_node_simps visit.simps del: generic_visit_lim.simps)
  next
    case 3
    with gv show ?thesis
      by (cases n; cases e)
         (simp_all add: frames_node_simps visit.simps del: generic_visit_lim.simps)
  qed
qed

lemma frames_sum_chain: "frames (sum_chain k) = 2 * k + 2"
  by (induction k) (simp_all add: frames_node_simps)







section \<open>Evaluation of the scanner on given trees\<close>

lemmas eval_defs = scan_code_def check_target_def looks_suspicious_def add_issue_def code_snippet_def getitem_def
  str_splitlines_def str_strip_def str_lower_def char_lower_def isspace_def line_boundary_def
  SecurityVisitor_init_def visit.simps generic_visit.simps preorder.simps
  secret_finding_def

section \<open>The claims\<close>

text \<open>
  C4. When \<^verbatim>\<open>ast.parse\<close> fails on the text, \<^const>\<open>scan_code\<close> returns exactly one
  Finding of severity \<open>Error\<close>: for a \<^verbatim>\<open>SyntaxError\<close> it carries the line the
  parser reports, or 0 when the parser reports none, and the parser's message; for any
  other exception it carries line 0 and the text of the exception. No tree exists, so
  nothing is traversed and no other Finding is produced.
\<close>

theorem parse_failure_singleton:
  "(ast_parse code_text = Raise_SyntaxError e_lineno e_msg \<longrightarrow>
      scan_code ast_parse code_text file_name =
        [\<lparr>filename = file_name, line = (case e_lineno of None \<Rightarrow> 0 | Some l \<Rightarrow> l),
          issue = ''Syntax Error: '' @ e_msg, severity = ''Error'', code = ''N/A''\<rparr>]) \<and>
   (ast_parse code_text = Raise_Exception e_str \<longrightarrow>
      scan_code ast_parse code_text file_name =
        [\<lparr>filename = file_name, line = 0, issue = ''Failed to parse: '' @ e_str,
          severity = ''Error'', code = ''N/A''\<rparr>]) \<and>
   ((\<forall>tree. ast_parse code_text \<noteq> Parsed tree) \<longrightarrow>
      (\<exists>f. scan_code ast_parse code_text file_name = [f] \<and> severity f = ''Error''))"
proof -
  have "\<exists>f. scan_code ast_parse code_text file_name = [f] \<and> severity f = ''Error''"
    if "\<forall>tree. ast_parse code_text \<noteq> Parsed tree"
    using that by (cases "ast_parse code_text") (simp_all add: scan_code_def)
  then show ?thesis by (simp add: scan_code_def)
qed

text \<open>
  The three ways of failing, at a parser that reports line 2, one that reports no line,
  and one that raises another exception.
\<close>

theorem parse_failure_singleton_witness:
  "scan_code (\<lambda>s. Raise_SyntaxError (Some 2) ''expected an indented block'')
     (''try:'' @ [CHR 0x0D, CHR 0x0A]) ''a.py'' =
     [\<lparr>filename = ''a.py'', line = 2, issue = ''Syntax Error: expected an indented block'',
       severity = ''Error'', code = ''N/A''\<rparr>] \<and>
   scan_code (\<lambda>s. Raise_SyntaxError None ''source code string cannot contain null bytes'')
     [CHR 0x00] ''a.py'' =
     [\<lparr>filename = ''a.py'', line = 0,
       issue = ''Syntax Error: source code string cannot contain null bytes'',
       severity = ''Error'', code = ''N/A''\<rparr>] \<and>
   scan_code (\<lambda>s. Raise_Exception ''maximum recursion depth exceeded during ast construction'')
     ''x'' ''a.py'' =
     [\<lparr>filename = ''a.py'', line = 0,
       issue = ''Failed to parse: maximum recursion depth exceeded during ast construction'',
       severity = ''Error'', code = ''N/A''\<rparr>]"
  using parse_failure_singleton [of "\<lambda>s. Raise_SyntaxError (Some 2) ''expected an indented block''"
      "''try:'' @ [CHR 0x0D, CHR 0x0A]" "Some 2" "''expected an indented block''" "''a.py''" "''''"]
    parse_failure_singleton [of "\<lambda>s. Raise_SyntaxError None ''source code string cannot contain null bytes''"
      "[CHR 0x00]" None "''source code string cannot contain null bytes''" "''a.py''" "''''"]
    parse_failure_singleton [of "\<lambda>s. Raise_Exception ''maximum recursion depth exceeded during ast construction''"
      "''x''" None "''''" "''a.py''" "''maximum recursion depth exceeded during ast construction''"]
  by simp

text \<open>
  C1. For the text \<^verbatim>\<open>api_key = "abc123"\<close> (parsed to a module with one assignment of
  a string constant to the name \<open>api_key\<close> on line 1) \<^const>\<open>scan_code\<close> returns exactly
  one Finding, of severity \<open>High\<close>, whose issue text contains \<open>api_key\<close>; for the text
  \<^verbatim>\<open>token = some_function_call()\<close>, where the assigned value is a call, it returns
  no Finding.
\<close>

theorem secret_detection_examples:
  assumes "ast_parse (''api_key = '' @ [CHR 0x22] @ ''abc123'' @ [CHR 0x22]) =
             Parsed (Module [Assign 1 [Name ''api_key'' Store] (Constant (StrValue ''abc123''))])"
    and "ast_parse ''token = some_function_call()'' =
             Parsed (Module [Assign 1 [Name ''token'' Store]
                       (Call 1 (Name ''some_function_call'' Load) [] [])])"
  shows "scan_code ast_parse (''api_key = '' @ [CHR 0x22] @ ''abc123'' @ [CHR 0x22]) file_name =
           [\<lparr>filename = file_name, line = 1,
             issue = ''Possible Hardcoded Secret: '' @ [CHR 0x27] @ ''api_key'' @ [CHR 0x27],
             severity = ''High'',
             code = ''api_key = '' @ [CHR 0x22] @ ''abc123'' @ [CHR 0x22]\<rparr>] \<and>
         str_in ''api_key'' (''Possible Hardcoded Secret: '' @ [CHR 0x27] @ ''api_key'' @ [CHR 0x27]) \<and>
         scan_code ast_parse ''token = some_function_call()'' file_name = []"
proof -
  have a: "scan_code ast_parse (''api_key = '' @ [CHR 0x22] @ ''abc123'' @ [CHR 0x22]) file_name =
           [\<lparr>filename = file_name, line = 1,
             issue = ''Possible Hardcoded Secret: '' @ [CHR 0x27] @ ''api_key'' @ [CHR 0x27],
             severity = ''High'',
             code = ''api_key = '' @ [CHR 0x22] @ ''abc123'' @ [CHR 0x22]\<rparr>]"
    using assms(1) by (simp add: eval_defs)
  have b: "str_in ''api_key'' (''Possible Hardcoded Secret: '' @ [CHR 0x27] @ ''api_key'' @ [CHR 0x27])"
    by simp
  have c: "scan_code ast_parse ''token = some_function_call()'' file_name = []"
    using assms(2) by (simp add: eval_defs)
  from a b c show ?thesis by blast
qed


theorem secret_detection_examples_witness:
  "scan_code
     (\<lambda>s. if s = ''token = some_function_call()''
          then Parsed (Module [Assign 1 [Name ''token'' Store]
                         (Call 1 (Name ''some_function_call'' Load) [] [])])
          else Parsed (Module [Assign 1 [Name ''api_key'' Store]
                         (Constant (StrValue ''abc123''))]))
     (''api_key = '' @ [CHR 0x22] @ ''abc123'' @ [CHR 0x22]) ''app.py'' =
     [\<lparr>filename = ''app.py'', line = 1,
       issue = ''Possible Hardcoded Secret: '' @ [CHR 0x27] @ ''api_key'' @ [CHR 0x27],
       severity = ''High'',
       code = ''api_key = '' @ [CHR 0x22] @ ''abc123'' @ [CHR 0x22]\<rparr>] \<and>
   scan_code
     (\<lambda>s. if s = ''token = some_function_call()''
          then Parsed (Module [Assign 1 [Name ''token'' Store]
                         (Call 1 (Name ''some_function_call'' Load) [] [])])
          else Parsed (Module [Assign 1 [Name ''api_key'' Store]
                         (Constant (StrValue ''abc123''))]))
     ''token = some_function_call()'' ''app.py'' = []"
  using secret_detection_examples
    [of "\<lambda>s. if s = ''token = some_function_call()''
          then Parsed (Module [Assign 1 [Name ''token'' Store]
                         (Call 1 (Name ''some_function_call'' Load) [] [])])
          else Parsed (Module [Assign 1 [Name ''api_key'' Store]
                         (Constant (StrValue ''abc123''))])" "''app.py''"]
  by simp

text \<open>
  C2. A call node whose callee is the bare name \<open>eval\<close> or \<open>exec\<close> adds exactly one
  Finding, of severity \<open>High\<close>, that names the function; a call of the bare name
  \<open>input\<close> adds exactly one \<open>Medium\<close> Finding; a call of \<open>os.system\<close> or \<open>os.popen\<close>
  adds exactly one \<open>High\<close> Finding that names module and method, and so does a call of
  \<open>subprocess.run\<close>, \<open>subprocess.call\<close> or \<open>subprocess.Popen\<close>. The Finding carries the
  line of the call and comes before whatever the arguments of the call add.
\<close>

theorem dangerous_call_findings:
  "(func_name \<in> {''eval'', ''exec''} \<longrightarrow>
      self_issues (visit self (Call ln (Name func_name ctx) args keywords)) =
        self_issues self @
        [\<lparr>filename = self_filename self, line = ln,
          issue = ''Use of Dangerous Function ('' @ func_name @ '')'', severity = ''High'',
          code = code_snippet (self_code_lines self) ln\<rparr>] @
        children_findings self (Call ln (Name func_name ctx) args keywords)) \<and>
   self_issues (visit self (Call ln (Name ''input'' ctx) args keywords)) =
     self_issues self @
     [\<lparr>filename = self_filename self, line = ln,
       issue = ''Use of input() (Validate this data!)'', severity = ''Medium'',
       code = code_snippet (self_code_lines self) ln\<rparr>] @
     children_findings self (Call ln (Name ''input'' ctx) args keywords) \<and>
   (method \<in> {''system'', ''popen''} \<longrightarrow>
      self_issues (visit self (Call ln (Attribute (Name ''os'' mctx) method ctx) args keywords)) =
        self_issues self @
        [\<lparr>filename = self_filename self, line = ln,
          issue = ''Potential OS Command Injection: os.'' @ method, severity = ''High'',
          code = code_snippet (self_code_lines self) ln\<rparr>] @
        children_findings self (Call ln (Attribute (Name ''os'' mctx) method ctx) args keywords)) \<and>
   (method \<in> {''run'', ''call'', ''Popen''} \<longrightarrow>
      self_issues (visit self
          (Call ln (Attribute (Name ''subprocess'' mctx) method ctx) args keywords)) =
        self_issues self @
        [\<lparr>filename = self_filename self, line = ln,
          issue = ''Potential Subprocess Injection: subprocess.'' @ method, severity = ''High'',
          code = code_snippet (self_code_lines self) ln\<rparr>] @
        children_findings self
          (Call ln (Attribute (Name ''subprocess'' mctx) method ctx) args keywords))"
  by (auto simp add: visit_issues node_findings_def add_issue_def Let_def)

text \<open>
  The four example texts of the specification, \<^verbatim>\<open>eval(user_input)\<close>,
  \<^verbatim>\<open>input()\<close>, \<^verbatim>\<open>os.system("rm -rf /")\<close> and \<^verbatim>\<open>subprocess.Popen(cmd)\<close>,
  each scanned as the tree \<^verbatim>\<open>ast.parse\<close> returns for it.
\<close>

theorem dangerous_call_findings_witness:
  "scan_code
     (\<lambda>s. Parsed (Module [Expr (Call 1 (Name ''eval'' Load) [Name ''user_input'' Load] [])]))
     ''eval(user_input)'' ''app.py'' =
     [\<lparr>filename = ''app.py'', line = 1, issue = ''Use of Dangerous Function (eval)'',
       severity = ''High'', code = ''eval(user_input)''\<rparr>] \<and>
   scan_code (\<lambda>s. Parsed (Module [Expr (Call 1 (Name ''input'' Load) [] [])]))
     ''input()'' ''app.py'' =
     [\<lparr>filename = ''app.py'', line = 1, issue = ''Use of input() (Validate this data!)'',
       severity = ''Medium'', code = ''input()''\<rparr>] \<and>
   scan_code
     (\<lambda>s. Parsed (Module [Expr (Call 1 (Attribute (Name ''os'' Load) ''system'' Load)
                                   [Constant (StrValue ''rm -rf /'')] [])]))
     (''os.system('' @ [CHR 0x22] @ ''rm -rf /'' @ [CHR 0x22] @ '')'') ''app.py'' =
     [\<lparr>filename = ''app.py'', line = 1, issue = ''Potential OS Command Injection: os.system'',
       severity = ''High'',
       code = ''os.system('' @ [CHR 0x22] @ ''rm -rf /'' @ [CHR 0x22] @ '')''\<rparr>] \<and>
   scan_code
     (\<lambda>s. Parsed (Module [Expr (Call 1 (Attribute (Name ''subprocess'' Load) ''Popen'' Load)
                                   [Name ''cmd'' Load] [])]))
     ''subprocess.Popen(cmd)'' ''app.py'' =
     [\<lparr>filename = ''app.py'', line = 1,
       issue = ''Potential Subprocess Injection: subprocess.Popen'',
       severity = ''High'', code = ''subprocess.Popen(cmd)''\<rparr>]"
  using dangerous_call_findings
    [of "''eval''" "SecurityVisitor_init ''app.py'' [''eval(user_input)'']" 1 Load
        "[Name ''user_input'' Load]" "[]" "''system''" Load]
  by (simp add: eval_defs)

text \<open>
  C3. An exception handler whose body is the single statement \<^verbatim>\<open>pass\<close>, or the single
  expression statement \<^verbatim>\<open>...\<close>, adds exactly one Finding, of severity \<open>Low\<close>, on the
  handler's line; a handler whose body has more than one statement adds none itself.
\<close>

theorem empty_handler_findings:
  "(body = [Pass] \<or> body = [Expr (Constant EllipsisValue)] \<longrightarrow>
      self_issues (visit self (ExceptHandler ln ty nm body)) =
        self_issues self @
        [\<lparr>filename = self_filename self, line = ln,
          issue = ''Broad Exception Handler (empty except)'', severity = ''Low'',
          code = code_snippet (self_code_lines self) ln\<rparr>] @
        children_findings self (ExceptHandler ln ty nm body)) \<and>
   (1 < length body \<longrightarrow>
      self_issues (visit self (ExceptHandler ln ty nm body)) =
        self_issues self @ children_findings self (ExceptHandler ln ty nm body))"
  by (auto simp add: visit_issues node_findings_def add_issue_def Let_def)

text \<open>
  A handler that only passes (\<^verbatim>\<open>except:\<close> on line 3 of the text) and one that logs
  before it passes.
\<close>

theorem empty_handler_findings_witness:
  "scan_code
     (\<lambda>s. Parsed (Module [Try [Expr (Name ''x'' Load)]
                             [ExceptHandler 3 None None [Pass]] [] []]))
     (''try:'' @ [CHR 0x0A] @ ''    x'' @ [CHR 0x0A] @ ''except:'' @ [CHR 0x0A] @ ''    pass''
        @ [CHR 0x0A]) ''app.py'' =
     [\<lparr>filename = ''app.py'', line = 3, issue = ''Broad Exception Handler (empty except)'',
       severity = ''Low'', code = ''except:''\<rparr>] \<and>
   scan_code
     (\<lambda>s. Parsed (Module [Try [Expr (Name ''x'' Load)]
                             [ExceptHandler 3 (Some (Name ''E'' Load)) None
                                [Expr (Call 4 (Name ''log'' Load) [Name ''e'' Load] []), Pass]]
                             [] []]))
     (''try:'' @ [CHR 0x0A] @ ''    x'' @ [CHR 0x0A] @ ''except E:'' @ [CHR 0x0A] @
      ''    log(e)'' @ [CHR 0x0A] @ ''    pass'' @ [CHR 0x0A]) ''app.py'' = []"
  using empty_handler_findings
    [of "[Pass]" "SecurityVisitor_init ''app.py'' [''try:'', ''    x'', ''except:'', ''    pass'']"
        3 None None]
  by (simp add: eval_defs)

text \<open>
  C10, as amended. The visitor has no method for the class \<^verbatim>\<open>AnnAssign\<close>: an annotated
  assignment adds exactly the Findings of its target, annotation and value expressions and
  never one of the secret detector. With a simple name as target and a string constant as
  value that leaves the Findings of the annotation: none when the annotation is a name, a
  string or a subscript of names, as in \<^verbatim>\<open>api_key: str = "abc123"\<close>, which yields no
  Finding while the same assignment without annotation is flagged.
\<close>

theorem annotated_assignment_findings:
  "self_issues (visit self (AnnAssign target annotation v)) =
     self_issues self @
     tree_findings (self_filename self) (self_code_lines self) target @
     tree_findings (self_filename self) (self_code_lines self) annotation @
     tree_findings (self_filename self) (self_code_lines self) v \<and>
   self_issues (visit self (AnnAssign (Name target_id Store) annotation (Constant (StrValue s)))) =
     self_issues self @ tree_findings (self_filename self) (self_code_lines self) annotation \<and>
   (annotation = Name annotation_id Load \<or> annotation = Constant (StrValue annotation_id) \<or>
    annotation = Other ''Subscript'' [Name generic_id Load, Name annotation_id Load, Load] \<longrightarrow>
      self_issues (visit self
        (AnnAssign (Name target_id Store) annotation (Constant (StrValue s)))) = self_issues self) \<and>
   (ast_parse (''api_key: str = '' @ [CHR 0x22] @ ''abc123'' @ [CHR 0x22]) =
      Parsed (Module [AnnAssign (Name ''api_key'' Store) (Name ''str'' Load)
                        (Constant (StrValue ''abc123''))]) \<longrightarrow>
    scan_code ast_parse (''api_key: str = '' @ [CHR 0x22] @ ''abc123'' @ [CHR 0x22]) file_name = [])"
proof -
  have gen: "self_issues (visit self (AnnAssign t a w)) =
     self_issues self @
     tree_findings (self_filename self) (self_code_lines self) t @
     tree_findings (self_filename self) (self_code_lines self) a @
     tree_findings (self_filename self) (self_code_lines self) w" for t a w
    by (simp add: visit_issues node_findings_def children_findings_eq)
  have sub: "tree_findings f l (Other ''Subscript'' [Name g Load, Name a Load, Load]) = []" for f l g a
    by (simp add: tree_findings_unfold [of _ _ "Other _ _"] node_findings_def)
  have ex: "scan_code ast_parse (''api_key: str = '' @ [CHR 0x22] @ ''abc123'' @ [CHR 0x22]) file_name = []"
    if "ast_parse (''api_key: str = '' @ [CHR 0x22] @ ''abc123'' @ [CHR 0x22]) =
      Parsed (Module [AnnAssign (Name ''api_key'' Store) (Name ''str'' Load)
                        (Constant (StrValue ''abc123''))])"
    using that by (simp add: scan_code_def visit.simps generic_visit.simps)
  from ex show ?thesis
    by (auto simp add: gen sub)
qed

text \<open>
  The claim as stated fails: an annotated assignment need not yield zero Findings. The
  annotation is an expression that the traversal visits, and a dangerous call in it is
  reported, as for \<^verbatim>\<open>api_key: eval("str") = "abc123"\<close>.
\<close>

theorem annotated_assignment_counterexample:
  "scan_code
     (\<lambda>s. Parsed (Module [AnnAssign (Name ''api_key'' Store)
                             (Call 1 (Name ''eval'' Load) [Constant (StrValue ''str'')] [])
                             (Constant (StrValue ''abc123''))]))
     (''api_key: eval('' @ [CHR 0x22] @ ''str'' @ [CHR 0x22] @ '') = '' @
      [CHR 0x22] @ ''abc123'' @ [CHR 0x22]) ''app.py'' =
     [\<lparr>filename = ''app.py'', line = 1, issue = ''Use of Dangerous Function (eval)'',
       severity = ''High'',
       code = ''api_key: eval('' @ [CHR 0x22] @ ''str'' @ [CHR 0x22] @ '') = '' @
              [CHR 0x22] @ ''abc123'' @ [CHR 0x22]\<rparr>]"
  by (simp add: eval_defs)

text \<open>The annotations \<^verbatim>\<open>str\<close> and \<^verbatim>\<open>Optional[str]\<close>.\<close>

theorem annotated_assignment_findings_witness:
  "scan_code
     (\<lambda>s. Parsed (Module [AnnAssign (Name ''api_key'' Store) (Name ''str'' Load)
                             (Constant (StrValue ''abc123''))]))
     (''api_key: str = '' @ [CHR 0x22] @ ''abc123'' @ [CHR 0x22]) ''app.py'' = [] \<and>
   self_issues (visit (SecurityVisitor_init ''app.py'' [])
      (AnnAssign (Name ''api_key'' Store)
         (Other ''Subscript'' [Name ''Optional'' Load, Name ''str'' Load, Load])
         (Constant (StrValue ''abc123'')))) = []"
  using annotated_assignment_findings
    [of "SecurityVisitor_init ''app.py'' []" "Name ''api_key'' Store"
        "Other ''Subscript'' [Name ''Optional'' Load, Name ''str'' Load, Load]"
        "Constant (StrValue ''abc123'')" "''api_key''" "''abc123''" "''str''" "''Optional''"
        "\<lambda>s. Parsed (Module [AnnAssign (Name ''api_key'' Store) (Name ''str'' Load)
                             (Constant (StrValue ''abc123''))])" "''app.py''"]
  by (simp add: tree_findings_def preorder.simps node_findings_def)

text \<open>
  C7, as amended. The secret detector runs over every target of an assignment statement.
  When the value is a string constant, each target that is a simple name whose lowered
  form contains \<open>key\<close>, \<open>password\<close>, \<open>secret\<close> or \<open>token\<close> adds one \<open>High\<close> Finding, in
  the order of the targets and whatever the other targets are; when the value is no
  string constant, no target adds one. The Findings of the statement come before those of
  its sub-expressions. A single-target statement with such a name so yields exactly one
  Finding, and a chained assignment yields one for each of its secret-like targets.
\<close>

theorem secret_detector_per_target:
  "self_issues (visit self (Assign ln targets (Constant (StrValue s)))) =
     self_issues self @
     map (secret_finding (self_filename self) (self_code_lines self) ln)
       (filter (\<lambda>i. looks_suspicious (str_lower i)) (target_ids targets)) @
     children_findings self (Assign ln targets (Constant (StrValue s))) \<and>
   ((\<forall>s. v \<noteq> Constant (StrValue s)) \<longrightarrow>
      self_issues (visit self (Assign ln targets v)) =
        self_issues self @ children_findings self (Assign ln targets v)) \<and>
   (looks_suspicious (str_lower target_id) \<longrightarrow>
      self_issues (visit self (Assign ln [Name target_id Store] (Constant (StrValue s)))) =
        self_issues self @
        [secret_finding (self_filename self) (self_code_lines self) ln target_id])"
proof -
  have gen: "self_issues (visit self (Assign ln ts (Constant (StrValue s)))) =
     self_issues self @
     map (secret_finding (self_filename self) (self_code_lines self) ln)
       (filter (\<lambda>i. looks_suspicious (str_lower i)) (target_ids ts)) @
     children_findings self (Assign ln ts (Constant (StrValue s)))" for ts
    by (simp add: visit_issues node_findings_def fold_check_target_with targets_findings)
  have other: "self_issues (visit self (Assign ln targets v)) =
        self_issues self @ children_findings self (Assign ln targets v)"
    if "\<forall>s. v \<noteq> Constant (StrValue s)"
    using that
    by (simp add: visit_issues node_findings_def fold_check_target_with targets_findings_other)
  have single: "self_issues (visit self (Assign ln [Name target_id Store] (Constant (StrValue s)))) =
        self_issues self @
        [secret_finding (self_filename self) (self_code_lines self) ln target_id]"
    if "looks_suspicious (str_lower target_id)"
    using that gen [of "[Name target_id Store]"] by (simp add: children_findings_eq)
  from gen [of targets] other single show ?thesis by blast
qed

text \<open>
  The claim as stated fails: the chained assignment \<^verbatim>\<open>api_key = secret = "x"\<close> has two
  targets and is flagged, once for each.
\<close>

theorem single_target_counterexample:
  "scan_code
     (\<lambda>s. Parsed (Module [Assign 1 [Name ''api_key'' Store, Name ''secret'' Store]
                             (Constant (StrValue ''x''))]))
     (''api_key = secret = '' @ [CHR 0x22] @ ''x'' @ [CHR 0x22]) ''app.py'' =
     [\<lparr>filename = ''app.py'', line = 1,
       issue = ''Possible Hardcoded Secret: '' @ [CHR 0x27] @ ''api_key'' @ [CHR 0x27],
       severity = ''High'', code = ''api_key = secret = '' @ [CHR 0x22] @ ''x'' @ [CHR 0x22]\<rparr>,
      \<lparr>filename = ''app.py'', line = 1,
       issue = ''Possible Hardcoded Secret: '' @ [CHR 0x27] @ ''secret'' @ [CHR 0x27],
       severity = ''High'', code = ''api_key = secret = '' @ [CHR 0x22] @ ''x'' @ [CHR 0x22]\<rparr>]"
  by (simp add: eval_defs)

text \<open>
  The statement \<^verbatim>\<open>self.x = API_KEY = name = "s"\<close>: an attribute and two names as
  targets, one of the names secret-like in upper case.
\<close>

theorem secret_detector_per_target_witness:
  "scan_code
     (\<lambda>s. Parsed (Module [Assign 1 [Attribute (Name ''self'' Load) ''x'' Store,
                                      Name ''API_KEY'' Store, Name ''name'' Store]
                             (Constant (StrValue ''s''))]))
     (''self.x = API_KEY = name = '' @ [CHR 0x22] @ ''s'' @ [CHR 0x22]) ''app.py'' =
     [\<lparr>filename = ''app.py'', line = 1,
       issue = ''Possible Hardcoded Secret: '' @ [CHR 0x27] @ ''API_KEY'' @ [CHR 0x27],
       severity = ''High'',
       code = ''self.x = API_KEY = name = '' @ [CHR 0x22] @ ''s'' @ [CHR 0x22]\<rparr>]"
  using secret_detector_per_target
    [of "SecurityVisitor_init ''app.py''
           [''self.x = API_KEY = name = '' @ [CHR 0x22] @ ''s'' @ [CHR 0x22]]" 1
        "[Attribute (Name ''self'' Load) ''x'' Store, Name ''API_KEY'' Store, Name ''name'' Store]"
        "''s''" "Constant (IntValue 0)" "''API_KEY''"]
  by (simp add: eval_defs char_of_def bit_Suc_0_iff)




text \<open>
  C8. The Findings come in document order: the list that \<^const>\<open>scan_code\<close> returns for a
  parsed text is what the nodes of the tree trigger, node after node in the order of
  \<^const>\<open>preorder\<close>, not sorted by line or severity. So when a secret assignment on line 2
  comes before a dangerous call on line 5 in the tree, its Finding comes before the
  Finding of the call in the list.
\<close>

theorem findings_in_document_order:
  assumes "ast_parse code_text = Parsed tree"
  shows "scan_code ast_parse code_text file_name =
           concat (map (node_findings file_name (str_splitlines code_text)) (preorder tree)) \<and>
         (preorder tree =
            before @ [Assign 2 [Name target_id Store] (Constant (StrValue s))] @ between @
            [Call 5 (Name func_name ctx) args keywords] @ rest \<and>
          looks_suspicious (str_lower target_id) \<and> func_name \<in> {''eval'', ''exec''} \<longrightarrow>
          (\<exists>A B C. scan_code ast_parse code_text file_name =
             A @ [secret_finding file_name (str_splitlines code_text) 2 target_id] @ B @
             [\<lparr>filename = file_name, line = 5,
               issue = ''Use of Dangerous Function ('' @ func_name @ '')'', severity = ''High'',
               code = code_snippet (str_splitlines code_text) 5\<rparr>] @ C))"
proof -
  let ?nf = "node_findings file_name (str_splitlines code_text)"
  have scan: "scan_code ast_parse code_text file_name = concat (map ?nf (preorder tree))"
    using assms by (rule scan_code_parsed)
  have "\<exists>A B C. scan_code ast_parse code_text file_name =
             A @ [secret_finding file_name (str_splitlines code_text) 2 target_id] @ B @
             [\<lparr>filename = file_name, line = 5,
               issue = ''Use of Dangerous Function ('' @ func_name @ '')'', severity = ''High'',
               code = code_snippet (str_splitlines code_text) 5\<rparr>] @ C"
    if pre: "preorder tree =
            before @ [Assign 2 [Name target_id Store] (Constant (StrValue s))] @ between @
            [Call 5 (Name func_name ctx) args keywords] @ rest"
      and sus: "looks_suspicious (str_lower target_id)"
      and fn: "func_name \<in> {''eval'', ''exec''}"
  proof -
    have a: "?nf (Assign 2 [Name target_id Store] (Constant (StrValue s))) =
        [secret_finding file_name (str_splitlines code_text) 2 target_id]"
      using sus
      by (simp add: node_findings_def check_target_def add_issue_def Let_def secret_finding_def)
    have c: "?nf (Call 5 (Name func_name ctx) args keywords) =
        [\<lparr>filename = file_name, line = 5,
               issue = ''Use of Dangerous Function ('' @ func_name @ '')'', severity = ''High'',
               code = code_snippet (str_splitlines code_text) 5\<rparr>]"
      using fn by (auto simp add: node_findings_def add_issue_def Let_def)
    have "scan_code ast_parse code_text file_name =
        concat (map ?nf before) @
        [secret_finding file_name (str_splitlines code_text) 2 target_id] @
        concat (map ?nf between) @
        [\<lparr>filename = file_name, line = 5,
               issue = ''Use of Dangerous Function ('' @ func_name @ '')'', severity = ''High'',
               code = code_snippet (str_splitlines code_text) 5\<rparr>] @
        concat (map ?nf rest)"
      unfolding scan pre by (simp add: a c)
    then show ?thesis by blast
  qed
  with scan show ?thesis by blast
qed

text \<open>
  A unit of five lines: an import, the secret on line 2, two empty lines, the call on
  line 5.
\<close>

theorem findings_in_document_order_witness:
  "scan_code
     (\<lambda>s. Parsed (Module [Other ''Import'' [Other ''alias'' []],
                             Assign 2 [Name ''api_key'' Store] (Constant (StrValue ''abc123'')),
                             Expr (Call 5 (Name ''eval'' Load) [Name ''user_input'' Load] [])]))
     (''import os'' @ [CHR 0x0A] @ ''api_key = '' @ [CHR 0x22] @ ''abc123'' @ [CHR 0x22] @
      [CHR 0x0A, CHR 0x0A, CHR 0x0A] @ ''eval(user_input)'' @ [CHR 0x0A]) ''app.py'' =
     [\<lparr>filename = ''app.py'', line = 2,
       issue = ''Possible Hardcoded Secret: '' @ [CHR 0x27] @ ''api_key'' @ [CHR 0x27],
       severity = ''High'', code = ''api_key = '' @ [CHR 0x22] @ ''abc123'' @ [CHR 0x22]\<rparr>,
      \<lparr>filename = ''app.py'', line = 5, issue = ''Use of Dangerous Function (eval)'',
       severity = ''High'', code = ''eval(user_input)''\<rparr>]"
  using findings_in_document_order
    [of "\<lambda>s. Parsed (Module [Other ''Import'' [Other ''alias'' []],
                             Assign 2 [Name ''api_key'' Store] (Constant (StrValue ''abc123'')),
                             Expr (Call 5 (Name ''eval'' Load) [Name ''user_input'' Load] [])])"
        "''import os'' @ [CHR 0x0A] @ ''api_key = '' @ [CHR 0x22] @ ''abc123'' @ [CHR 0x22] @
      [CHR 0x0A, CHR 0x0A, CHR 0x0A] @ ''eval(user_input)'' @ [CHR 0x0A]"
        "Module [Other ''Import'' [Other ''alias'' []],
                 Assign 2 [Name ''api_key'' Store] (Constant (StrValue ''abc123'')),
                 Expr (Call 5 (Name ''eval'' Load) [Name ''user_input'' Load] [])]" "''app.py''"]
  by (simp add: eval_defs node_findings_def)





text \<open>
  C5. The claim is that \<^verbatim>\<open>scan_code\<close> never raises. It does: the traversal of line 107
  stands outside the \<^verbatim>\<open>try\<close> statement, and a tree that is deeper than the frames the
  interpreter has left makes it raise \<^verbatim>\<open>RecursionError\<close>. For the text
  \<^verbatim>\<open>x = 1+1+...+1\<close> with \<open>k\<close> additions the traversal needs \<open>2 * k + 7\<close> frames; with
  fewer, \<^const>\<open>scan_code_lim\<close> returns the exception and no list of Findings.
\<close>

theorem traversal_raises_RecursionError:
  assumes "ast_parse (sum_text k) = Parsed (Module [Assign 1 [Name ''x'' Store] (sum_chain k)])"
    and "d < 2 * k + 7"
  shows "scan_code_lim d ast_parse (sum_text k) file_name = Inl RecursionError"
proof -
  have "2 * k + 7 \<le> frames (Module [Assign 1 [Name ''x'' Store] (sum_chain k)])"
    by (simp add: frames_node_simps frames_sum_chain)
  with assms show ?thesis
    by (simp add: scan_code_lim_def visit_lim_frames)
qed

text \<open>
  With 999 additions, the whole default limit of 1000 frames is not enough (CPython 3.11
  parses this text; its own limit on the depth of a tree is higher).
\<close>

theorem traversal_raises_RecursionError_witness:
  "scan_code_lim 1000
     (\<lambda>s. Parsed (Module [Assign 1 [Name ''x'' Store] (sum_chain 999)]))
     (sum_text 999) ''app.py'' = Inl RecursionError"
  using traversal_raises_RecursionError
    [of "\<lambda>s. Parsed (Module [Assign 1 [Name ''x'' Store] (sum_chain 999)])" 999 1000 "''app.py''"]
  by simp


end
